theory Spec2Isabelle
  imports Main "HOL-Library.Word"
begin

section \<open>The Pikafish WebAssembly adapter (src/wasm_api.cpp)\<close>

text \<open>
  The file \<^verbatim>\<open>wasm_api.cpp\<close> defines one class, \<^verbatim>\<open>PikafishWASM\<close>, a facade between a
  JavaScript host and the search engine. The engine and the host are external: the adapter
  only calls them. The embedding therefore keeps
  \<^item> the fields of the class as a record,
  \<^item> the engine's option store, which the adapter reads and writes through
    \<^verbatim>\<open>engine->get_options()\<close>, as a map,
  \<^item> every outward call (into the engine, or into a host callback) as an entry of a log,
    together with the fields of the object as they are at the moment of the call, and
  \<^item> the behaviour of the collaborators (whether a call throws, what a query returns) as a
    parameter of every method.
  A method is a function from the state before to an outcome (an exception or a return value)
  and the state after; side effects made before a throw persist, as they do in C++.

  What a collaborator does during a call is not part of the call: when the engine runs a
  trampoline, or a host function calls the adapter again, that is a later event of a run
  (\<open>run\<close> below). No method and no trampoline writes a field after an outward call
  (\<open>calls_see_final_object\<close>), so nothing is lost by that. Threads and the memory model
  are outside the embedding.
\<close>

subsection \<open>Host values (emscripten::val)\<close>

text \<open>
  A \<^verbatim>\<open>val\<close> is a handle to a JavaScript value. A number is kept by its numeric value;
  every number the adapter builds is an integer. A function is an opaque reference.
\<close>

datatype val =
    JSNull
  | JSUndefined
  | JSNumber int
  | JSString string
  | JSObject "(string \<times> val) list"
  | JSFunction nat

text \<open>\<^verbatim>\<open>val::isNull()\<close>: true for JavaScript's \<^verbatim>\<open>null\<close> only.\<close>

fun isNull :: "val \<Rightarrow> bool" where
  "isNull JSNull = True"
| "isNull _ = False"

text \<open>
  \<^verbatim>\<open>val::set(key, value)\<close> on an object created by \<^verbatim>\<open>val::object()\<close>: the property list
  of the object, in insertion order; setting an existing key overwrites it in place.
\<close>

fun set_property :: "(string \<times> val) list \<Rightarrow> string \<Rightarrow> val \<Rightarrow> (string \<times> val) list" where
  "set_property [] k v = [(k, v)]"
| "set_property ((k', v') # ps) k v =
     (if k' = k then (k, v) # ps else (k', v') # set_property ps k v)"

text \<open>
  \<^verbatim>\<open>static_cast<double>(x)\<close> for a \<^verbatim>\<open>uint64_t\<close>. The target is WebAssembly, whose
  conversion \<^verbatim>\<open>f64.convert_i64_u\<close> rounds to the nearest binary64 value, ties to even. A
  binary64 has a 53-bit significand, so a value below \<open>2 ^ 53\<close> is kept, and a value of
  bit length \<open>53 + e\<close> is rounded to a multiple of \<open>2 ^ e\<close>. The result is always an integer
  and is returned as such.
\<close>

fun bit_length :: "nat \<Rightarrow> nat" where
  "bit_length n = (if n = 0 then 0 else Suc (bit_length (n div 2)))"

declare bit_length.simps [simp del]

definition static_cast_double :: "64 word \<Rightarrow> int" where
  "static_cast_double x =
     (let n = unat x in
      if n < 2 ^ 53 then int n
      else
        let e = bit_length n - 53;
            q = n div 2 ^ e;
            r = n mod 2 ^ e;
            h = 2 ^ (e - 1)
        in int ((if h < r \<or> (r = h \<and> odd q) then q + 1 else q) * 2 ^ e))"

text \<open>\<^verbatim>\<open>std::to_string(int)\<close>: the decimal form, with a minus sign for a negative value.\<close>

fun to_string_nat :: "nat \<Rightarrow> string" where
  "to_string_nat n =
     (if n < 10 then [''0123456789'' ! n]
      else to_string_nat (n div 10) @ [''0123456789'' ! (n mod 10)])"

declare to_string_nat.simps [simp del]

definition to_string :: "int \<Rightarrow> string" where
  "to_string i = (if i < 0 then CHR ''-'' # to_string_nat (nat (- i)) else to_string_nat (nat i))"

subsection \<open>Types declared by the engine\<close>

text \<open>
  A C++ exception. The handler in \<^verbatim>\<open>init\<close> is \<^verbatim>\<open>catch (const std::exception&)\<close>: it
  catches an object derived from \<^verbatim>\<open>std::exception\<close> (kept with its message) and nothing
  else.
\<close>

datatype exn = StdException string | OtherException

datatype Color = WHITE | BLACK

text \<open>
  Modelled from the spec: the declaration of \<^verbatim>\<open>Engine::InfoFull\<close> (engine.h) is not part of
  the sources at hand. The fields are the eight that the adapter reads; \<open>nodes\<close>, \<open>nps\<close>
  and \<open>tbHits\<close> are the 64-bit counters, the others are integers that the adapter hands
  over as they are.
\<close>

record InfoFull =
  depth :: int
  selDepth :: int
  timeMs :: int
  nodes :: "64 word"
  score :: int
  hashfull :: int
  nps :: "64 word"
  tbHits :: "64 word"

text \<open>
  Modelled from the spec: the declaration of \<^verbatim>\<open>Search::LimitsType\<close> (search.h) is not part
  of the sources at hand. The fields are the four that the adapter assigns: a depth, a time
  budget for each side, a node budget and the infinite flag. What a default-constructed
  descriptor holds is a parameter of the model (\<open>LimitsType_new\<close> below).
\<close>

record LimitsType =
  depth :: int
  time :: "Color \<Rightarrow> int"
  nodes :: "64 word"
  infinite_flag :: bool

subsection \<open>The adapter object and its surroundings\<close>

record PikafishWASM =
  lastBestMove :: string
  lastPonder :: string
  searching :: bool
  onUpdateCallback :: val
  onBestMoveCallback :: val

text \<open>The outward calls of the adapter: the engine's interface, and a call of a host function.\<close>

datatype call =
    E_Engine
  | E_set_on_bestmove
  | E_set_on_update_full
  | E_load_networks
  | E_verify_networks
  | E_set_position string "string list"
  | E_go LimitsType
  | E_stop
  | E_wait_for_search_finished
  | E_fen
  | E_visualize
  | E_get_hashfull
  | E_search_clear
  | E_set_tt_size nat
  | E_resize_threads
  | E_perft string int
  | H_invoke val "val list"

type_synonym trace = "(call \<times> PikafishWASM) list"

text \<open>
  Modelled from the spec: the engine's option store (ucioption.h) is not part of the sources
  at hand; the spec describes it as a store with lookup by name, a presence check
  \<^verbatim>\<open>count(name)\<close> and string assignment. It is a map from names to string values.
\<close>

type_synonym OptionsMap = "string \<rightharpoonup> string"

definition options_count :: "OptionsMap \<Rightarrow> string \<Rightarrow> nat" where
  "options_count m name = (case m name of None \<Rightarrow> 0 | Some _ \<Rightarrow> 1)"

record world =
  self :: PikafishWASM
  options :: OptionsMap
  trace :: trace

text \<open>
  The collaborators. \<open>throws\<close> tells, from the calls made so far, whether a call throws;
  the other fields are what the engine library supplies: the default-constructed limits,
  the options the engine advertises when it is constructed, and the results of its queries.
\<close>

record env =
  throws :: "trace \<Rightarrow> call \<Rightarrow> exn option"
  LimitsType_new :: LimitsType
  advertised :: OptionsMap
  fen_result :: "trace \<Rightarrow> string"
  visualize_result :: "trace \<Rightarrow> string"
  get_hashfull_result :: "trace \<Rightarrow> int"
  perft_result :: "trace \<Rightarrow> string \<Rightarrow> int \<Rightarrow> 64 word"

subsection \<open>Statements\<close>

type_synonym 'a prog = "world \<Rightarrow> (exn + 'a) \<times> world"

definition result :: "'a \<Rightarrow> 'a prog" where
  "result x w = (Inr x, w)"

definition bind_prog :: "'a prog \<Rightarrow> ('a \<Rightarrow> 'b prog) \<Rightarrow> 'b prog" where
  "bind_prog p f w = (case p w of (Inl e, w') \<Rightarrow> (Inl e, w') | (Inr x, w') \<Rightarrow> f x w')"

definition seq :: "unit prog \<Rightarrow> 'a prog \<Rightarrow> 'a prog" where
  "seq p q = bind_prog p (\<lambda>_. q)"

text \<open>An assignment to fields of the object.\<close>

definition assign :: "(PikafishWASM \<Rightarrow> PikafishWASM) \<Rightarrow> unit prog" where
  "assign f w = (Inr (), w\<lparr>self := f (self w)\<rparr>)"

text \<open>
  An outward call: it is logged with the object as it is now, and it returns or throws as
  the collaborator decides.
\<close>

definition extern :: "env \<Rightarrow> call \<Rightarrow> unit prog" where
  "extern ev c w =
     (case throws ev (trace w) c of None \<Rightarrow> Inr () | Some e \<Rightarrow> Inl e,
      w\<lparr>trace := trace w @ [(c, self w)]\<rparr>)"

text \<open>An outward call that returns a value.\<close>

definition query :: "env \<Rightarrow> call \<Rightarrow> (trace \<Rightarrow> 'a) \<Rightarrow> 'a prog" where
  "query ev c f w =
     (case throws ev (trace w) c of None \<Rightarrow> Inr (f (trace w)) | Some e \<Rightarrow> Inl e,
      w\<lparr>trace := trace w @ [(c, self w)]\<rparr>)"

text \<open>\<^verbatim>\<open>try { p } catch (const std::exception& e) { }\<close>\<close>

definition try_catch_std_exception :: "unit prog \<Rightarrow> unit prog" where
  "try_catch_std_exception p w =
     (case p w of
        (Inl (StdException m), w') \<Rightarrow> (Inr (), w')
      | (Inl OtherException, w') \<Rightarrow> (Inl OtherException, w')
      | (Inr x, w') \<Rightarrow> (Inr x, w'))"

subsection \<open>Construction and the two trampolines\<close>

text \<open>
  The constructor: the member initialisers, then the engine is created and the two lambdas
  are registered. There is no handler: when one of the three calls throws, the constructor
  throws and no object exists.
\<close>

definition PikafishWASM_new :: "env \<Rightarrow> exn + world" where
  "PikafishWASM_new ev =
     (let w = \<lparr>self = \<lparr>lastBestMove = [], lastPonder = [], searching = False,
                       onUpdateCallback = JSNull, onBestMoveCallback = JSNull\<rparr>,
               options = advertised ev, trace = []\<rparr>
      in case seq (extern ev E_Engine)
             (seq (extern ev E_set_on_bestmove)
                  (extern ev E_set_on_update_full)) w of
           (Inl e, w') \<Rightarrow> Inl e
         | (Inr x, w') \<Rightarrow> Inr w')"

text \<open>The destructor, up to the release of the engine.\<close>

definition PikafishWASM_delete :: "env \<Rightarrow> unit prog" where
  "PikafishWASM_delete ev w =
     (if searching (self w)
      then seq (extern ev E_stop) (extern ev E_wait_for_search_finished) w
      else result () w)"

text \<open>The lambda given to \<^verbatim>\<open>set_on_bestmove\<close>; the engine calls it with the terminal result.\<close>

definition on_bestmove :: "env \<Rightarrow> string \<Rightarrow> string \<Rightarrow> unit prog" where
  "on_bestmove ev best ponder =
     seq (assign (\<lambda>a. a\<lparr>lastBestMove := best\<rparr>))
    (seq (assign (\<lambda>a. a\<lparr>lastPonder := ponder\<rparr>))
    (seq (assign (\<lambda>a. a\<lparr>searching := False\<rparr>))
         (\<lambda>w. if \<not> isNull (onBestMoveCallback (self w))
              then extern ev (H_invoke (onBestMoveCallback (self w))
                               [JSString (lastBestMove (self w)), JSString (lastPonder (self w))]) w
              else result () w)))"

text \<open>The lambda given to \<^verbatim>\<open>set_on_update_full\<close>; the engine calls it with each progress record.\<close>

definition on_update_full :: "env \<Rightarrow> InfoFull \<Rightarrow> unit prog" where
  "on_update_full ev info w =
     (if \<not> isNull (onUpdateCallback (self w)) then
        (let updateInfo = [];
             updateInfo = set_property updateInfo ''depth'' (JSNumber (InfoFull.depth info));
             updateInfo = set_property updateInfo ''seldepth'' (JSNumber (selDepth info));
             updateInfo = set_property updateInfo ''time'' (JSNumber (timeMs info));
             updateInfo = set_property updateInfo ''nodes''
                            (JSNumber (static_cast_double (InfoFull.nodes info)));
             updateInfo = set_property updateInfo ''score'' (JSNumber (score info));
             updateInfo = set_property updateInfo ''hashfull'' (JSNumber (hashfull info));
             updateInfo = set_property updateInfo ''nps'' (JSNumber (static_cast_double (nps info)));
             updateInfo = set_property updateInfo ''tbhits''
                            (JSNumber (static_cast_double (tbHits info)))
         in extern ev (H_invoke (onUpdateCallback (self w)) [JSObject updateInfo]) w)
      else result () w)"

subsection \<open>The methods\<close>

definition init :: "env \<Rightarrow> unit prog" where
  "init ev =
     try_catch_std_exception
       (seq (extern ev E_load_networks)
            (extern ev E_verify_networks))"

definition setPosition :: "env \<Rightarrow> string \<Rightarrow> unit prog" where
  "setPosition ev fen = (let moves = [] in extern ev (E_set_position fen moves))"

definition setPositionWithMoves :: "env \<Rightarrow> string \<Rightarrow> string list \<Rightarrow> unit prog" where
  "setPositionWithMoves ev fen moves = extern ev (E_set_position fen moves)"

definition goDepth :: "env \<Rightarrow> int \<Rightarrow> unit prog" where
  "goDepth ev depth' =
     (let limits = LimitsType_new ev;
          limits = limits\<lparr>depth := depth'\<rparr>
      in seq (assign (\<lambda>a. a\<lparr>searching := True\<rparr>))
             (extern ev (E_go limits)))"

definition goTime :: "env \<Rightarrow> int \<Rightarrow> unit prog" where
  "goTime ev timeMs' =
     (let limits = LimitsType_new ev;
          limits = limits\<lparr>time := (time limits)(WHITE := timeMs')\<rparr>;
          limits = limits\<lparr>time := (time limits)(BLACK := timeMs')\<rparr>
      in seq (assign (\<lambda>a. a\<lparr>searching := True\<rparr>))
             (extern ev (E_go limits)))"

definition goNodes :: "env \<Rightarrow> 64 word \<Rightarrow> unit prog" where
  "goNodes ev nodes' =
     (let limits = LimitsType_new ev;
          limits = limits\<lparr>nodes := nodes'\<rparr>
      in seq (assign (\<lambda>a. a\<lparr>searching := True\<rparr>))
             (extern ev (E_go limits)))"

definition goInfinite :: "env \<Rightarrow> unit prog" where
  "goInfinite ev =
     (let limits = LimitsType_new ev;
          limits = limits\<lparr>infinite_flag := True\<rparr>
      in seq (assign (\<lambda>a. a\<lparr>searching := True\<rparr>))
             (extern ev (E_go limits)))"

definition stop :: "env \<Rightarrow> unit prog" where
  "stop ev w = (if searching (self w) then extern ev E_stop w else result () w)"

definition waitForSearchFinished :: "env \<Rightarrow> unit prog" where
  "waitForSearchFinished ev = extern ev E_wait_for_search_finished"

text \<open>The three \<^verbatim>\<open>const\<close> getters read a field of the object.\<close>

definition getBestMove :: "PikafishWASM \<Rightarrow> string" where
  "getBestMove a = lastBestMove a"

definition getPonderMove :: "PikafishWASM \<Rightarrow> string" where
  "getPonderMove a = lastPonder a"

definition isSearching :: "PikafishWASM \<Rightarrow> bool" where
  "isSearching a = searching a"

definition getFen :: "env \<Rightarrow> string prog" where
  "getFen ev = query ev E_fen (fen_result ev)"

definition visualize :: "env \<Rightarrow> string prog" where
  "visualize ev = query ev E_visualize (visualize_result ev)"

definition setOption :: "string \<Rightarrow> string \<Rightarrow> unit prog" where
  "setOption name value w =
     (if options_count (options w) name \<noteq> 0
      then (Inr (), w\<lparr>options := (options w)(name \<mapsto> value)\<rparr>)
      else result () w)"

definition getHashFull :: "env \<Rightarrow> int prog" where
  "getHashFull ev = query ev E_get_hashfull (get_hashfull_result ev)"

definition clearHash :: "env \<Rightarrow> unit prog" where
  "clearHash ev = extern ev E_search_clear"

definition setHashSize :: "env \<Rightarrow> nat \<Rightarrow> unit prog" where
  "setHashSize ev mb = extern ev (E_set_tt_size mb)"

definition setThreads :: "env \<Rightarrow> int \<Rightarrow> unit prog" where
  "setThreads ev numThreads =
     seq (setOption ''Threads'' (to_string numThreads))
         (extern ev E_resize_threads)"

definition setOnUpdate :: "val \<Rightarrow> unit prog" where
  "setOnUpdate callback = assign (\<lambda>a. a\<lparr>onUpdateCallback := callback\<rparr>)"

definition setOnBestMove :: "val \<Rightarrow> unit prog" where
  "setOnBestMove callback = assign (\<lambda>a. a\<lparr>onBestMoveCallback := callback\<rparr>)"

definition perft :: "env \<Rightarrow> string \<Rightarrow> int \<Rightarrow> 64 word prog" where
  "perft ev fen depth' = query ev (E_perft fen depth') (\<lambda>t. perft_result ev t fen depth')"

subsection \<open>The bound interface and runs of the system\<close>

text \<open>
  The block \<^verbatim>\<open>EMSCRIPTEN_BINDINGS(pikafish_module)\<close> binds 22 methods to the host. A host
  request names one of them with its arguments; the answer is the method's return value.
\<close>

datatype request =
    Init
  | SetPosition string
  | SetPositionWithMoves string "string list"
  | GoDepth int
  | GoTime int
  | GoNodes "64 word"
  | GoInfinite
  | Stop
  | WaitForSearchFinished
  | GetBestMove
  | GetPonderMove
  | IsSearching
  | GetFen
  | Visualize
  | SetOption string string
  | GetHashFull
  | ClearHash
  | SetHashSize nat
  | SetThreads int
  | SetOnUpdate val
  | SetOnBestMove val
  | Perft string int

datatype answer = Void | RetString string | RetBool bool | RetInt int | RetU64 "64 word"

definition returning :: "('a \<Rightarrow> answer) \<Rightarrow> 'a prog \<Rightarrow> answer prog" where
  "returning f p = bind_prog p (\<lambda>x. result (f x))"

fun api :: "env \<Rightarrow> request \<Rightarrow> answer prog" where
  "api ev Init = returning (\<lambda>_. Void) (init ev)"
| "api ev (SetPosition fen) = returning (\<lambda>_. Void) (setPosition ev fen)"
| "api ev (SetPositionWithMoves fen moves) = returning (\<lambda>_. Void) (setPositionWithMoves ev fen moves)"
| "api ev (GoDepth d) = returning (\<lambda>_. Void) (goDepth ev d)"
| "api ev (GoTime ms) = returning (\<lambda>_. Void) (goTime ev ms)"
| "api ev (GoNodes n) = returning (\<lambda>_. Void) (goNodes ev n)"
| "api ev GoInfinite = returning (\<lambda>_. Void) (goInfinite ev)"
| "api ev Stop = returning (\<lambda>_. Void) (stop ev)"
| "api ev WaitForSearchFinished = returning (\<lambda>_. Void) (waitForSearchFinished ev)"
| "api ev GetBestMove = (\<lambda>w. result (RetString (getBestMove (self w))) w)"
| "api ev GetPonderMove = (\<lambda>w. result (RetString (getPonderMove (self w))) w)"
| "api ev IsSearching = (\<lambda>w. result (RetBool (isSearching (self w))) w)"
| "api ev GetFen = returning RetString (getFen ev)"
| "api ev Visualize = returning RetString (visualize ev)"
| "api ev (SetOption name value) = returning (\<lambda>_. Void) (setOption name value)"
| "api ev GetHashFull = returning RetInt (getHashFull ev)"
| "api ev ClearHash = returning (\<lambda>_. Void) (clearHash ev)"
| "api ev (SetHashSize mb) = returning (\<lambda>_. Void) (setHashSize ev mb)"
| "api ev (SetThreads n) = returning (\<lambda>_. Void) (setThreads ev n)"
| "api ev (SetOnUpdate cb) = returning (\<lambda>_. Void) (setOnUpdate cb)"
| "api ev (SetOnBestMove cb) = returning (\<lambda>_. Void) (setOnBestMove cb)"
| "api ev (Perft fen d) = returning RetU64 (perft ev fen d)"

text \<open>
  What happens to an object, one thing at a time: the host calls a bound method, or the
  engine calls one of the two trampolines. An exception leaves the state as it is at the
  throw, and the next event starts from there.
\<close>

datatype event = Host request | BestMove string string | UpdateFull InfoFull

fun step :: "env \<Rightarrow> world \<Rightarrow> event \<Rightarrow> world" where
  "step ev w (Host r) = snd (api ev r w)"
| "step ev w (BestMove best ponder) = snd (on_bestmove ev best ponder w)"
| "step ev w (UpdateFull info) = snd (on_update_full ev info w)"

definition run :: "env \<Rightarrow> world \<Rightarrow> event list \<Rightarrow> world" where
  "run ev w es = foldl (step ev) w es"

text \<open>The outward calls made between two states.\<close>

definition new_calls :: "world \<Rightarrow> world \<Rightarrow> trace" where
  "new_calls w w' = drop (length (trace w)) (trace w')"

fun is_BestMove :: "event \<Rightarrow> bool" where
  "is_BestMove (BestMove best ponder) = True"
| "is_BestMove _ = False"

fun is_go :: "request \<Rightarrow> bool" where
  "is_go (GoDepth d) = True"
| "is_go (GoTime ms) = True"
| "is_go (GoNodes n) = True"
| "is_go GoInfinite = True"
| "is_go _ = False"

subsection \<open>Example surroundings\<close>

text \<open>
  An engine that never throws, whose default limits are all zero and which advertises two
  options; the same engine with one call that throws; a progress record whose node count,
  \<open>2 ^ 53 + 1\<close>, is not a binary64 value; and three states of an object: as the
  constructor leaves it, idle with both callbacks registered, and in the middle of a search
  with no \<open>onUpdate\<close> function.
\<close>

definition quiet_env :: env where
  "quiet_env =
     \<lparr>throws = (\<lambda>t c. None),
      LimitsType_new = \<lparr>depth = 0, time = (\<lambda>c. 0), nodes = 0, infinite_flag = False\<rparr>,
      advertised = [''Threads'' \<mapsto> ''1'', ''Hash'' \<mapsto> ''16''],
      fen_result = (\<lambda>t. []),
      visualize_result = (\<lambda>t. []),
      get_hashfull_result = (\<lambda>t. 0),
      perft_result = (\<lambda>t fen d. 0)\<rparr>"

definition failing_env :: "call \<Rightarrow> exn \<Rightarrow> env" where
  "failing_env c e = quiet_env\<lparr>throws := (\<lambda>t c'. if c' = c then Some e else None)\<rparr>"

definition example_info :: InfoFull where
  "example_info =
     \<lparr>InfoFull.depth = 30, selDepth = 41, timeMs = 3600000,
      InfoFull.nodes = 9007199254740993, score = - 25, hashfull = 1000,
      nps = 2501999792, tbHits = 0\<rparr>"

definition new_object :: PikafishWASM where
  "new_object =
     \<lparr>lastBestMove = [], lastPonder = [], searching = False,
      onUpdateCallback = JSNull, onBestMoveCallback = JSNull\<rparr>"

definition new_world :: world where
  "new_world =
     \<lparr>self = new_object,
      options = advertised quiet_env,
      trace = [(E_Engine, new_object), (E_set_on_bestmove, new_object),
               (E_set_on_update_full, new_object)]\<rparr>"

definition idle_world :: world where
  "idle_world =
     \<lparr>self = \<lparr>lastBestMove = ''h2e2'', lastPonder = ''h9g7'', searching = False,
              onUpdateCallback = JSFunction 1, onBestMoveCallback = JSFunction 2\<rparr>,
      options = advertised quiet_env,
      trace = []\<rparr>"

definition busy_world :: world where
  "busy_world =
     \<lparr>self = \<lparr>lastBestMove = ''h2e2'', lastPonder = ''h9g7'', searching = True,
              onUpdateCallback = JSNull, onBestMoveCallback = JSFunction 2\<rparr>,
      options = advertised quiet_env,
      trace = []\<rparr>"

section \<open>Properties\<close>

subsection \<open>Statements, one at a time\<close>

lemma seq_assign: "seq (assign f) q w = q (w\<lparr>self := f (self w)\<rparr>)"
  by (simp add: seq_def bind_prog_def assign_def)

lemma snd_extern: "snd (extern ev c w) = w\<lparr>trace := trace w @ [(c, self w)]\<rparr>"
  by (simp add: extern_def)

lemma snd_query: "snd (query ev c f w) = w\<lparr>trace := trace w @ [(c, self w)]\<rparr>"
  by (simp add: query_def)

lemma snd_result: "snd (result x w) = w"
  by (simp add: result_def)

lemma snd_returning: "snd (returning f p w) = snd (p w)"
  by (simp add: returning_def bind_prog_def result_def split: prod.splits sum.splits)

lemma snd_try_catch: "snd (try_catch_std_exception p w) = snd (p w)"
  by (simp add: try_catch_std_exception_def split: prod.splits sum.splits exn.splits)

text \<open>Two statements that leave the object alone leave it alone in sequence, throw or not.\<close>

lemma self_seq:
  assumes "\<And>w. self (snd (p w)) = self w" and "\<And>w. self (snd (q w)) = self w"
  shows "self (snd (seq p q w)) = self w"
proof (cases "p w")
  case (Pair r w')
  then have "self w' = self w" using assms(1) [of w] by simp
  then show ?thesis using Pair assms(2) [of w']
    by (cases r) (simp_all add: seq_def bind_prog_def)
qed

lemma both_sides: "(f(WHITE := x, BLACK := x)) = (\<lambda>c. x)"
proof
  fix c show "(f(WHITE := x, BLACK := x)) c = x" by (cases c) simp_all
qed

subsection \<open>The conversion to double, and the decimal form\<close>

text \<open>
  The bit length is the position of the highest set bit. The conversion keeps a value below
  \<open>2 ^ 53\<close>, always gives a value with a significand of at most 53 bits, and is never
  further from the counter than half a unit in the last place: the relative error is at
  most \<open>2 ^ - 53\<close>.
\<close>

lemma bit_length_0: "bit_length 0 = 0"
  by (simp add: bit_length.simps)

lemma bit_length_pos: "0 < n \<Longrightarrow> bit_length n = Suc (bit_length (n div 2))"
  by (subst bit_length.simps) simp


lemma bit_length_bounds: "0 < n \<Longrightarrow> 2 ^ (bit_length n - 1) \<le> n \<and> n < 2 ^ bit_length n"
proof (induction n rule: bit_length.induct)
  case (1 n)
  show ?case
  proof (cases "n div 2 = 0")
    case True
    with "1.prems" have "n = 1" by presburger
    then show ?thesis by (simp add: bit_length_pos bit_length_0)
  next
    case False
    then have pos: "0 < n div 2" by simp
    from "1.prems" have "n \<noteq> 0" by simp
    from "1.IH" [OF this pos]
    have lo: "2 ^ (bit_length (n div 2) - 1) \<le> n div 2"
      and hi: "n div 2 < 2 ^ bit_length (n div 2)" by simp_all
    from pos have "0 < bit_length (n div 2)" by (simp add: bit_length_pos)
    then have "(2::nat) ^ bit_length (n div 2) = 2 * 2 ^ (bit_length (n div 2) - 1)"
      by (cases "bit_length (n div 2)") simp_all
    with lo have "2 ^ bit_length (n div 2) \<le> n" by presburger
    moreover from hi have "n < 2 * 2 ^ bit_length (n div 2)" by presburger
    ultimately show ?thesis using "1.prems" by (simp add: bit_length_pos)
  qed
qed


lemma static_cast_double_exact: "unat x < 2 ^ 53 \<Longrightarrow> static_cast_double x = uint x"
  by (simp add: static_cast_double_def)

lemma round_half:
  fixes n e :: nat
  assumes "0 < e"
  defines "q \<equiv> n div 2 ^ e" and "r \<equiv> n mod 2 ^ e" and "h \<equiv> 2 ^ (e - 1)"
  shows "\<bar>int ((if h < r \<or> (r = h \<and> odd q) then q + 1 else q) * 2 ^ e) - int n\<bar> \<le> int h"
proof -
  have two: "(2::nat) ^ e = 2 * h" using assms(1) unfolding h_def by (cases e) simp_all
  have n: "n = q * 2 ^ e + r"
    using div_mult_mod_eq [of n "2 ^ e"] by (simp add: q_def r_def)
  have r: "r < 2 * h" unfolding r_def two [symmetric] by simp
  show ?thesis
  proof (cases "h < r \<or> (r = h \<and> odd q)")
    case True
    then have "h \<le> r" by auto
    have "int ((q + 1) * 2 ^ e) - int n = int (2 * h) - int r"
      by (subst n) (simp add: two algebra_simps)
    with \<open>h \<le> r\<close> r have "\<bar>int ((q + 1) * 2 ^ e) - int n\<bar> \<le> int h" by simp
    with True show ?thesis by (simp only: if_True)
  next
    case False
    then have "r \<le> h" by auto
    have "int (q * 2 ^ e) - int n = - int r"
      by (subst n) simp
    with \<open>r \<le> h\<close> have "\<bar>int (q * 2 ^ e) - int n\<bar> \<le> int h" by simp
    with False show ?thesis by (simp only: if_False)
  qed
qed

lemma static_cast_double_nearest:
  "\<bar>static_cast_double x - uint x\<bar> * 2 ^ 53 \<le> uint x"
proof (cases "unat x < 2 ^ 53")
  case True
  then show ?thesis by (simp add: static_cast_double_exact)
next
  case False
  define n where "n = unat x"
  define e where "e = bit_length n - 53"
  from False have big: "2 ^ 53 \<le> n" by (simp add: n_def)
  then have pos: "0 < n" by (simp add: order_less_le_trans [of 0 "2 ^ 53"])
  from bit_length_bounds [OF pos] have lo: "2 ^ (bit_length n - 1) \<le> n" and hi: "n < 2 ^ bit_length n"
    by simp_all
  have "53 < bit_length n"
  proof (rule power_less_imp_less_exp)
    show "(1::nat) < 2" by simp
    show "(2::nat) ^ 53 < 2 ^ bit_length n" using big hi by (rule le_less_trans)
  qed
  then have e: "0 < e" and bl: "bit_length n - 1 = (e - 1) + 53" by (simp_all add: e_def)
  have "\<bar>static_cast_double x - int n\<bar> \<le> int (2 ^ (e - 1))"
    using round_half [OF e, of n] False
    by (simp add: static_cast_double_def Let_def n_def [symmetric] e_def [symmetric])
  then have "\<bar>static_cast_double x - int n\<bar> * 2 ^ 53 \<le> int (2 ^ (e - 1)) * 2 ^ 53"
    by (rule mult_right_mono) simp
  also have "int (2 ^ (e - 1)) * 2 ^ 53 = int (2 ^ (bit_length n - 1))"
    by (simp only: bl power_add of_nat_mult of_nat_power of_nat_numeral)
  also have "\<dots> \<le> int n" using lo by simp
  finally show ?thesis by (simp add: n_def)
qed

lemma static_cast_double_representable:
  "\<exists>m e. static_cast_double x = int (m * 2 ^ e) \<and> m \<le> 2 ^ 53"
proof (cases "unat x < 2 ^ 53")
  case True
  then have "static_cast_double x = int (unat x * 2 ^ 0) \<and> unat x \<le> 2 ^ 53"
    by (simp add: static_cast_double_def)
  then show ?thesis by blast
next
  case False
  define n where "n = unat x"
  define e where "e = bit_length n - 53"
  define q where "q = n div 2 ^ e"
  from False have big: "2 ^ 53 \<le> n" by (simp add: n_def)
  then have pos: "0 < n" by (simp add: order_less_le_trans [of 0 "2 ^ 53"])
  from bit_length_bounds [OF pos] have hi: "n < 2 ^ bit_length n" by simp
  have "53 < bit_length n"
  proof (rule power_less_imp_less_exp)
    show "(1::nat) < 2" by simp
    show "(2::nat) ^ 53 < 2 ^ bit_length n" using big hi by (rule le_less_trans)
  qed
  then have "bit_length n = 53 + e" by (simp add: e_def)
  with hi have "n < 2 ^ 53 * 2 ^ e" by (simp add: power_add)
  then have "q < 2 ^ 53" unfolding q_def by (simp add: less_mult_imp_div_less)
  then have "q \<le> 2 ^ 53" and "q + 1 \<le> 2 ^ 53" by simp_all
  moreover have "static_cast_double x = int (q * 2 ^ e) \<or> static_cast_double x = int ((q + 1) * 2 ^ e)"
    using False
    by (auto simp add: static_cast_double_def Let_def n_def [symmetric] e_def [symmetric]
          q_def [symmetric] algebra_simps)
  ultimately show ?thesis by blast
qed


lemma to_string_examples:
  "to_string 4 = ''4''" "to_string (- 120) = ''-120''" "to_string 0 = ''0''"
  by (simp_all add: to_string_def to_string_nat.simps)

subsection \<open>The state after each method\<close>

lemma snd_goDepth:
  "snd (goDepth ev d w) =
     w\<lparr>self := (self w)\<lparr>searching := True\<rparr>,
       trace := trace w @ [(E_go ((LimitsType_new ev)\<lparr>depth := d\<rparr>),
                            (self w)\<lparr>searching := True\<rparr>)]\<rparr>"
  by (simp add: goDepth_def seq_assign snd_extern)

lemma snd_goTime:
  "snd (goTime ev ms w) =
     w\<lparr>self := (self w)\<lparr>searching := True\<rparr>,
       trace := trace w @ [(E_go ((LimitsType_new ev)\<lparr>time := (\<lambda>c. ms)\<rparr>),
                            (self w)\<lparr>searching := True\<rparr>)]\<rparr>"
  by (simp add: goTime_def seq_assign snd_extern both_sides)

lemma snd_goNodes:
  "snd (goNodes ev n w) =
     w\<lparr>self := (self w)\<lparr>searching := True\<rparr>,
       trace := trace w @ [(E_go ((LimitsType_new ev)\<lparr>nodes := n\<rparr>),
                            (self w)\<lparr>searching := True\<rparr>)]\<rparr>"
  by (simp add: goNodes_def seq_assign snd_extern)

lemma snd_goInfinite:
  "snd (goInfinite ev w) =
     w\<lparr>self := (self w)\<lparr>searching := True\<rparr>,
       trace := trace w @ [(E_go ((LimitsType_new ev)\<lparr>infinite_flag := True\<rparr>),
                            (self w)\<lparr>searching := True\<rparr>)]\<rparr>"
  by (simp add: goInfinite_def seq_assign snd_extern)

lemma self_setOption: "self (snd (setOption name v w)) = self w"
  by (simp add: setOption_def result_def)

lemma self_init: "self (snd (init ev w)) = self w"
  unfolding init_def snd_try_catch by (rule self_seq) (simp_all add: snd_extern)

text \<open>The handler in \<open>init\<close> leaves two outcomes: a normal return, or a foreign exception.\<close>

lemma fst_init_cases:
  "fst (init ev w) = Inr () \<or> fst (init ev w) = Inl OtherException"
  by (simp add: init_def try_catch_std_exception_def split: prod.splits sum.splits exn.splits)

text \<open>A forwarding method has no handler: what the engine throws, the method throws.\<close>

lemma setPosition_propagates:
  "throws ev (trace w) (E_set_position fen moves) = Some e \<Longrightarrow>
     fst (api ev (SetPositionWithMoves fen moves) w) = Inl e"
  by (simp add: returning_def bind_prog_def setPositionWithMoves_def extern_def)

lemma self_setThreads: "self (snd (setThreads ev n w)) = self w"
  unfolding setThreads_def by (rule self_seq) (simp_all add: snd_extern self_setOption)

lemma self_stop: "self (snd (stop ev w)) = self w"
  by (simp add: stop_def snd_extern snd_result)

text \<open>
  The object after a request: a \<open>go\<close> request raises the flag, the two setters replace a
  callback slot, and no other request changes a field.
\<close>

lemma self_api:
  "self (snd (api ev r w)) =
     (case r of
        GoDepth d \<Rightarrow> (self w)\<lparr>searching := True\<rparr>
      | GoTime ms \<Rightarrow> (self w)\<lparr>searching := True\<rparr>
      | GoNodes n \<Rightarrow> (self w)\<lparr>searching := True\<rparr>
      | GoInfinite \<Rightarrow> (self w)\<lparr>searching := True\<rparr>
      | SetOnUpdate cb \<Rightarrow> (self w)\<lparr>onUpdateCallback := cb\<rparr>
      | SetOnBestMove cb \<Rightarrow> (self w)\<lparr>onBestMoveCallback := cb\<rparr>
      | _ \<Rightarrow> self w)"
  by (cases r)
     (simp_all add: snd_returning snd_result snd_extern snd_query snd_goDepth snd_goTime
        snd_goNodes snd_goInfinite self_init self_setThreads self_stop self_setOption
        setPosition_def setPositionWithMoves_def waitForSearchFinished_def getFen_def
        visualize_def getHashFull_def clearHash_def setHashSize_def setOnUpdate_def
        setOnBestMove_def perft_def assign_def)

lemma searching_api: "searching (self (snd (api ev r w))) = (searching (self w) \<or> is_go r)"
  unfolding self_api by (cases r) simp_all

lemma lastBestMove_api: "lastBestMove (self (snd (api ev r w))) = lastBestMove (self w)"
  unfolding self_api by (cases r) simp_all

lemma lastPonder_api: "lastPonder (self (snd (api ev r w))) = lastPonder (self w)"
  unfolding self_api by (cases r) simp_all

lemma self_on_update_full: "self (snd (on_update_full ev info w)) = self w"
  by (simp add: on_update_full_def snd_extern snd_result Let_def)

lemma self_on_bestmove:
  "self (snd (on_bestmove ev best ponder w)) =
     (self w)\<lparr>lastBestMove := best, lastPonder := ponder, searching := False\<rparr>"
  by (simp add: on_bestmove_def seq_assign snd_extern snd_result)

lemma trace_on_bestmove:
  "trace (snd (on_bestmove ev best ponder w)) =
     trace w @
       (if isNull (onBestMoveCallback (self w)) then []
        else [(H_invoke (onBestMoveCallback (self w)) [JSString best, JSString ponder],
               (self w)\<lparr>lastBestMove := best, lastPonder := ponder, searching := False\<rparr>)])"
  by (simp add: on_bestmove_def seq_assign snd_extern snd_result)

subsection \<open>Outward calls come last\<close>

text \<open>
  Every call that a request or a trampoline makes is logged with the object as the request
  or the trampoline leaves it: the assignments come first.
\<close>

lemma snd_seq_extern:
  "snd (seq (extern ev c) (extern ev c') w) =
     w\<lparr>trace := trace w @ (c, self w) #
                 (if throws ev (trace w) c = None then [(c', self w)] else [])\<rparr>"
  by (simp add: seq_def bind_prog_def extern_def split: option.splits)

lemma snd_setThreads:
  "snd (setThreads ev n w) = (snd (setOption ''Threads'' (to_string n) w))
     \<lparr>trace := trace w @ [(E_resize_threads, self w)]\<rparr>"
  by (simp add: setThreads_def seq_def bind_prog_def setOption_def result_def extern_def)

lemma trace_setOption: "trace (snd (setOption name v w)) = trace w"
  by (simp add: setOption_def result_def)

lemma calls_see_final_object:
  "list_all (\<lambda>(c, a). a = self (snd (api ev r w))) (new_calls w (snd (api ev r w)))"
  by (cases r)
     (simp_all add: new_calls_def snd_returning snd_result snd_extern snd_query snd_goDepth
        snd_goTime snd_goNodes snd_goInfinite self_setOption trace_setOption snd_setThreads snd_seq_extern
        snd_try_catch init_def stop_def
        setPosition_def setPositionWithMoves_def waitForSearchFinished_def getFen_def
        visualize_def getHashFull_def clearHash_def setHashSize_def setOnUpdate_def
        setOnBestMove_def perft_def assign_def)

lemma trampolines_see_final_object:
  "list_all (\<lambda>(c, a). a = self (snd (on_bestmove ev best ponder w)))
     (new_calls w (snd (on_bestmove ev best ponder w)))"
  "list_all (\<lambda>(c, a). a = self (snd (on_update_full ev info w)))
     (new_calls w (snd (on_update_full ev info w)))"
  by (simp_all add: new_calls_def trace_on_bestmove self_on_bestmove on_update_full_def
        snd_extern snd_result Let_def)

lemma self_PikafishWASM_delete: "self (snd (PikafishWASM_delete ev w)) = self w"
  by (simp add: PikafishWASM_delete_def snd_seq_extern snd_result)

subsection \<open>Runs without a terminal result\<close>

lemma run_Nil: "run ev w [] = w"
  by (simp add: run_def)

lemma run_Cons: "run ev w (e # es) = run ev (step ev w e) es"
  by (simp add: run_def)

lemma step_cached:
  "\<not> is_BestMove e \<Longrightarrow>
     lastBestMove (self (step ev w e)) = lastBestMove (self w)
   \<and> lastPonder (self (step ev w e)) = lastPonder (self w)"
  by (cases e) (simp_all add: lastBestMove_api lastPonder_api self_on_update_full)

lemma step_searching:
  "\<not> is_BestMove e \<Longrightarrow> searching (self w) \<Longrightarrow> searching (self (step ev w e))"
  by (cases e) (simp_all add: searching_api self_on_update_full)

lemma run_cached:
  "\<not> list_ex is_BestMove es \<Longrightarrow>
     lastBestMove (self (run ev w es)) = lastBestMove (self w)
   \<and> lastPonder (self (run ev w es)) = lastPonder (self w)"
proof (induction es arbitrary: w)
  case Nil
  show ?case by (simp add: run_Nil)
next
  case (Cons e es)
  then have e: "\<not> is_BestMove e" and es: "\<not> list_ex is_BestMove es" by simp_all
  show ?case using Cons.IH [OF es, of "step ev w e"] step_cached [OF e, of ev w]
    by (simp add: run_Cons)
qed

lemma run_searching:
  "\<not> list_ex is_BestMove es \<Longrightarrow> searching (self w) \<Longrightarrow> searching (self (run ev w es))"
proof (induction es arbitrary: w)
  case Nil
  then show ?case by (simp add: run_Nil)
next
  case (Cons e es)
  then have e: "\<not> is_BestMove e" and es: "\<not> list_ex is_BestMove es" by simp_all
  from step_searching [OF e Cons.prems(2)] have "searching (self (step ev w e))" .
  from Cons.IH [OF es this] show ?case by (simp add: run_Cons)
qed

section \<open>The claims\<close>

text \<open>
  Claim C1. When the engine delivers a terminal result \<open>(best, ponder)\<close>, the trampoline
  stores \<open>best\<close> and \<open>ponder\<close> in the object, clears \<open>searching\<close>, and only then calls the
  host's \<open>onBestMove\<close> function, and only when the slot is not null. The one call that
  the trampoline adds to the log is the host call with the two strings, and the object
  that the host sees at that moment answers \<open>getBestMove() = best\<close>,
  \<open>getPonderMove() = ponder\<close> and \<open>isSearching() = false\<close>. That object is the one the
  trampoline leaves, whether the slot is null or not and whether the host function
  returns or throws: the state after the trampoline is the state before with the three
  fields written and the call logged, and the three getters answer the same on it.
\<close>

theorem on_bestmove_publishes_then_calls:
  "(let a = (self w)\<lparr>lastBestMove := best, lastPonder := ponder, searching := False\<rparr> in
      trace (snd (on_bestmove ev best ponder w)) =
        trace w @
          (if isNull (onBestMoveCallback (self w)) then []
           else [(H_invoke (onBestMoveCallback (self w)) [JSString best, JSString ponder], a)])
    \<and> getBestMove a = best \<and> getPonderMove a = ponder \<and> isSearching a = False
    \<and> self (snd (on_bestmove ev best ponder w)) = a
    \<and> snd (on_bestmove ev best ponder w) =
        w\<lparr>self := a,
          trace := trace w @
            (if isNull (onBestMoveCallback (self w)) then []
             else [(H_invoke (onBestMoveCallback (self w)) [JSString best, JSString ponder],
                    a)])\<rparr>
    \<and> getBestMove (self (snd (on_bestmove ev best ponder w))) = best
    \<and> getPonderMove (self (snd (on_bestmove ev best ponder w))) = ponder
    \<and> isSearching (self (snd (on_bestmove ev best ponder w))) = False)"
  by (simp add: on_bestmove_def seq_assign snd_extern snd_result getBestMove_def
        getPonderMove_def isSearching_def)

theorem on_bestmove_publishes_then_calls_witness:
  "trace (snd (on_bestmove quiet_env ''b0c2'' ''b9c7'' busy_world)) =
     [(H_invoke (JSFunction 2) [JSString ''b0c2'', JSString ''b9c7''],
       \<lparr>lastBestMove = ''b0c2'', lastPonder = ''b9c7'', searching = False,
        onUpdateCallback = JSNull, onBestMoveCallback = JSFunction 2\<rparr>)]
   \<and> self (snd (on_bestmove quiet_env ''b0c2'' ''b9c7'' busy_world)) =
     \<lparr>lastBestMove = ''b0c2'', lastPonder = ''b9c7'', searching = False,
      onUpdateCallback = JSNull, onBestMoveCallback = JSFunction 2\<rparr>
   \<and> trace (snd (on_bestmove quiet_env ''b0c2'' ''b9c7'' new_world)) = trace new_world
   \<and> getBestMove (self (snd (on_bestmove quiet_env ''b0c2'' ''b9c7'' new_world))) = ''b0c2''
   \<and> getPonderMove (self (snd (on_bestmove quiet_env ''b0c2'' ''b9c7'' new_world))) = ''b9c7''
   \<and> isSearching (self (snd (on_bestmove quiet_env ''b0c2'' ''b9c7'' new_world))) = False
   \<and> getBestMove
        (self (snd (on_bestmove (failing_env (H_invoke (JSFunction 2)
                                   [JSString ''b0c2'', JSString ''b9c7''])
                                  (StdException ''TypeError''))
                      ''b0c2'' ''b9c7'' busy_world))) = ''b0c2''"
  using on_bestmove_publishes_then_calls
          [where w = busy_world and best = "''b0c2''" and ponder = "''b9c7''" and ev = quiet_env]
    on_bestmove_publishes_then_calls
      [where w = new_world and best = "''b0c2''" and ponder = "''b9c7''" and ev = quiet_env]
    on_bestmove_publishes_then_calls
      [where w = busy_world and best = "''b0c2''" and ponder = "''b9c7''"
         and ev = "failing_env (H_invoke (JSFunction 2) [JSString ''b0c2'', JSString ''b9c7''])
                     (StdException ''TypeError'')"]
  by (simp add: busy_world_def new_world_def new_object_def Let_def)

text \<open>
  Claim C2. Each of the four \<open>go\<close> entry points sets \<open>searching\<close> to true before it calls
  the engine's \<open>go\<close>, whatever the state before, a running search included: the call
  that reaches the engine is logged with an object whose flag is already true.
\<close>

theorem go_raises_flag_before_engine_go:
  "is_go r \<Longrightarrow>
     \<exists>limits a. trace (snd (api ev r w)) = trace w @ [(E_go limits, a)]
       \<and> a = (self w)\<lparr>searching := True\<rparr> \<and> isSearching a"
  by (cases r)
     (simp_all add: snd_returning snd_goDepth snd_goTime snd_goNodes snd_goInfinite
        isSearching_def)

theorem go_raises_flag_before_engine_go_witness:
  "is_go GoInfinite \<and> searching (self busy_world) \<and>
     (\<exists>limits a. trace (snd (api quiet_env GoInfinite busy_world)) =
        trace busy_world @ [(E_go limits, a)]
       \<and> a = (self busy_world)\<lparr>searching := True\<rparr> \<and> isSearching a)"
  using go_raises_flag_before_engine_go [of GoInfinite quiet_env busy_world]
  by (simp add: busy_world_def)

text \<open>
  Claim C3. Each \<open>go\<close> entry point takes a default-constructed limits descriptor, sets one
  logical field and hands the descriptor to the engine: \<open>goDepth d\<close> sets the depth,
  \<open>goTime ms\<close> sets the time budget of both sides to \<open>ms\<close>, \<open>goNodes n\<close> sets the node
  budget, \<open>goInfinite\<close> sets the infinite flag. Nothing of the descriptor stays in the
  object: the only field that changes is \<open>searching\<close>.
\<close>

theorem go_limits_one_field:
  "snd (goDepth ev d w) =
     w\<lparr>self := (self w)\<lparr>searching := True\<rparr>,
       trace := trace w @ [(E_go ((LimitsType_new ev)\<lparr>depth := d\<rparr>),
                            (self w)\<lparr>searching := True\<rparr>)]\<rparr>
   \<and> snd (goTime ev ms w) =
     w\<lparr>self := (self w)\<lparr>searching := True\<rparr>,
       trace := trace w @ [(E_go ((LimitsType_new ev)\<lparr>time := (\<lambda>side. ms)\<rparr>),
                            (self w)\<lparr>searching := True\<rparr>)]\<rparr>
   \<and> snd (goNodes ev n w) =
     w\<lparr>self := (self w)\<lparr>searching := True\<rparr>,
       trace := trace w @ [(E_go ((LimitsType_new ev)\<lparr>nodes := n\<rparr>),
                            (self w)\<lparr>searching := True\<rparr>)]\<rparr>
   \<and> snd (goInfinite ev w) =
     w\<lparr>self := (self w)\<lparr>searching := True\<rparr>,
       trace := trace w @ [(E_go ((LimitsType_new ev)\<lparr>infinite_flag := True\<rparr>),
                            (self w)\<lparr>searching := True\<rparr>)]\<rparr>"
  by (simp only: snd_goDepth snd_goTime snd_goNodes snd_goInfinite simp_thms)

theorem go_limits_one_field_witness:
  "trace (snd (goTime quiet_env 1000 idle_world)) =
     [(E_go \<lparr>depth = 0, time = (\<lambda>side. 1000), nodes = 0, infinite_flag = False\<rparr>,
       (self idle_world)\<lparr>searching := True\<rparr>)]
   \<and> trace (snd (goDepth quiet_env 12 idle_world)) =
     [(E_go \<lparr>depth = 12, time = (\<lambda>side. 0), nodes = 0, infinite_flag = False\<rparr>,
       (self idle_world)\<lparr>searching := True\<rparr>)]"
  using go_limits_one_field [of quiet_env 12 idle_world 1000]
  by (simp add: idle_world_def quiet_env_def)

text \<open>
  Claim C4 says that an exception of the engine during construction, or during the load and
  the verification of the networks in \<open>init\<close>, is caught by the adapter, and that no entry
  point lets an exception through. The constructor has no handler: when the construction
  of the engine throws, the constructor throws the same exception.
\<close>

theorem constructor_propagates_counterexample:
  "PikafishWASM_new (failing_env E_Engine (StdException ''bad_alloc'')) =
     Inl (StdException ''bad_alloc'')"
  by (simp add: PikafishWASM_new_def failing_env_def quiet_env_def seq_def bind_prog_def
        extern_def)

text \<open>
  Claim C4, as the code has it. \<open>init\<close> never lets an exception derived from
  \<^verbatim>\<open>std::exception\<close> through: it catches what the load or the verification of the
  networks throws and returns. The constructor installs no handler, and an exception
  thrown while the engine is constructed leaves the constructor.
\<close>

theorem init_catches_std_exception:
  "fst (init ev w) \<noteq> Inl (StdException m)
   \<and> (throws ev [] E_Engine = Some e \<longrightarrow> PikafishWASM_new ev = Inl e)"
  using fst_init_cases [of ev w]
  by (auto simp add: PikafishWASM_new_def seq_def bind_prog_def extern_def)

theorem init_catches_std_exception_witness:
  "throws (failing_env E_Engine OtherException) [] E_Engine = Some OtherException
   \<and> PikafishWASM_new (failing_env E_Engine OtherException) = Inl OtherException
   \<and> fst (init (failing_env E_load_networks (StdException ''no net'')) new_world) = Inr ()"
  using init_catches_std_exception
          [of "failing_env E_Engine OtherException" new_world "[]" OtherException]
  by (simp add: failing_env_def quiet_env_def init_def try_catch_std_exception_def seq_def
        bind_prog_def extern_def)

text \<open>
  Claim C5. \<open>setOption name value\<close> stores the value exactly when the option store has an
  option of that name; for any other name it changes nothing. In both cases it returns
  normally.
\<close>

theorem setOption_only_known_names:
  "setOption name value w =
     (Inr (), if name \<in> dom (options w) then w\<lparr>options := (options w)(name \<mapsto> value)\<rparr> else w)"
  by (auto simp add: setOption_def options_count_def result_def split: option.splits)

theorem setOption_only_known_names_witness:
  "setOption ''Threads'' ''4'' new_world =
     (Inr (), new_world\<lparr>options := [''Threads'' \<mapsto> ''4'', ''Hash'' \<mapsto> ''16'']\<rparr>)
   \<and> setOption ''Ponder'' ''true'' new_world = (Inr (), new_world)"
  using setOption_only_known_names [of "''Threads''" "''4''" new_world]
    setOption_only_known_names [of "''Ponder''" "''true''" new_world]
  by (simp add: new_world_def quiet_env_def fun_upd_twist)



text \<open>
  Claim C7. On an object that the constructor has just made, and after any events other
  than a terminal result of the engine, \<open>getBestMove()\<close> and \<open>getPonderMove()\<close> return the
  empty string. In every state the two requests return the cached strings and leave the
  state as it is.
\<close>

theorem getters_return_cache:
  assumes "PikafishWASM_new ev = Inr w0" and "\<not> list_ex is_BestMove es"
  shows "fst (api ev GetBestMove (run ev w0 es)) = Inr (RetString [])
       \<and> fst (api ev GetPonderMove (run ev w0 es)) = Inr (RetString [])
       \<and> api ev GetBestMove w = (Inr (RetString (lastBestMove (self w))), w)
       \<and> api ev GetPonderMove w = (Inr (RetString (lastPonder (self w))), w)"
proof -
  from assms(1) have "lastBestMove (self w0) = [] \<and> lastPonder (self w0) = []"
    by (auto simp add: PikafishWASM_new_def seq_def bind_prog_def extern_def
          split: prod.splits sum.splits option.splits)
  with run_cached [OF assms(2), of ev w0]
  have "lastBestMove (self (run ev w0 es)) = [] \<and> lastPonder (self (run ev w0 es)) = []"
    by simp
  then show ?thesis
    by (simp add: result_def getBestMove_def getPonderMove_def)
qed

theorem getters_return_cache_witness:
  "PikafishWASM_new quiet_env = Inr new_world
   \<and> \<not> list_ex is_BestMove
         [Host Init, Host (SetOnBestMove (JSFunction 2)), Host (GoDepth 5),
          UpdateFull example_info, Host Stop, Host GetBestMove]
   \<and> fst (api quiet_env GetBestMove
        (run quiet_env new_world
           [Host Init, Host (SetOnBestMove (JSFunction 2)), Host (GoDepth 5),
            UpdateFull example_info, Host Stop, Host GetBestMove]))
       = Inr (RetString [])"
proof -
  have new: "PikafishWASM_new quiet_env = Inr new_world"
    by (simp add: PikafishWASM_new_def quiet_env_def new_world_def new_object_def seq_def
          bind_prog_def extern_def)
  have quiet:
    "\<not> list_ex is_BestMove
         [Host Init, Host (SetOnBestMove (JSFunction 2)), Host (GoDepth 5),
          UpdateFull example_info, Host Stop, Host GetBestMove]"
    by simp
  show ?thesis
    using new quiet getters_return_cache [OF new quiet, of new_world] by blast
qed

text \<open>
  Claim C8. \<open>stop()\<close> asks the engine to stop exactly when \<open>searching\<close> is true, and that
  request is its only outward call: it never calls the engine's blocking wait. It changes
  no field of the object and no option. When \<open>searching\<close> is false it does nothing, so
  calling it again gives the same.
\<close>

theorem stop_only_forwards_when_searching:
  "snd (stop ev w) =
     w\<lparr>trace := trace w @ (if searching (self w) then [(E_stop, self w)] else [])\<rparr>
   \<and> (\<not> searching (self w) \<longrightarrow>
        stop ev w = (Inr (), w) \<and> stop ev (snd (stop ev w)) = stop ev w)"
  by (simp add: stop_def snd_extern result_def)

theorem stop_only_forwards_when_searching_witness:
  "\<not> searching (self idle_world)
   \<and> stop quiet_env idle_world = (Inr (), idle_world)
   \<and> stop quiet_env (snd (stop quiet_env idle_world)) = stop quiet_env idle_world
   \<and> snd (stop quiet_env busy_world) = busy_world\<lparr>trace := [(E_stop, self busy_world)]\<rparr>"
  using stop_only_forwards_when_searching [of quiet_env idle_world]
    stop_only_forwards_when_searching [of quiet_env busy_world]
  by (simp add: idle_world_def busy_world_def)

text \<open>
  Claim C9. Only the terminal trampoline sets \<open>searching\<close> to false. After a request of the
  host the flag is true when it was true before or the request is a \<open>go\<close>; the progress
  trampoline leaves it. So from a state where a search runs, \<open>stop()\<close> followed by any
  events other than a terminal result leaves \<open>isSearching()\<close> true.
\<close>

theorem searching_cleared_only_by_on_bestmove:
  "searching (self (snd (api ev r w))) = (searching (self w) \<or> is_go r)
   \<and> searching (self (snd (on_update_full ev info w))) = searching (self w)
   \<and> \<not> searching (self (snd (on_bestmove ev best ponder w)))
   \<and> (searching (self w) \<and> \<not> list_ex is_BestMove es \<longrightarrow>
        isSearching (self (run ev w (Host Stop # es))))"
proof -
  have "isSearching (self (run ev w (Host Stop # es)))"
    if "searching (self w)" and "\<not> list_ex is_BestMove es"
  proof -
    from that(2) have "\<not> list_ex is_BestMove (Host Stop # es)" by simp
    from run_searching [OF this that(1)] show ?thesis by (simp add: isSearching_def)
  qed
  then show ?thesis
    by (simp add: searching_api self_on_update_full self_on_bestmove)
qed

theorem searching_cleared_only_by_on_bestmove_witness:
  "searching (self busy_world)
   \<and> \<not> list_ex is_BestMove [Host WaitForSearchFinished, Host Stop, Host GetFen]
   \<and> isSearching (self (run quiet_env busy_world
        (Host Stop # [Host WaitForSearchFinished, Host Stop, Host GetFen])))"
proof -
  have busy: "searching (self busy_world)"
    by (simp add: busy_world_def)
  have quiet: "\<not> list_ex is_BestMove [Host WaitForSearchFinished, Host Stop, Host GetFen]"
    by simp
  from searching_cleared_only_by_on_bestmove
         [of quiet_env Stop busy_world _ "[]" "[]"
             "[Host WaitForSearchFinished, Host Stop, Host GetFen]"]
  show ?thesis using busy quiet by blast
qed

text \<open>
  Claim C10. The terminal trampoline stores the result and clears \<open>searching\<close> whether or
  not a host function is registered. After it, and after any events other than another
  terminal result, \<open>getBestMove()\<close> and \<open>getPonderMove()\<close> give that result.
\<close>

theorem on_bestmove_updates_without_callback:
  "self (snd (on_bestmove ev best ponder w)) =
     (self w)\<lparr>lastBestMove := best, lastPonder := ponder, searching := False\<rparr>
   \<and> (\<not> list_ex is_BestMove es \<longrightarrow>
        getBestMove (self (run ev (snd (on_bestmove ev best ponder w)) es)) = best
      \<and> getPonderMove (self (run ev (snd (on_bestmove ev best ponder w)) es)) = ponder)"
  using run_cached [of es ev "snd (on_bestmove ev best ponder w)"]
  by (simp add: self_on_bestmove getBestMove_def getPonderMove_def)

theorem on_bestmove_updates_without_callback_witness:
  "isNull (onBestMoveCallback (self new_world))
   \<and> \<not> list_ex is_BestMove [Host IsSearching, Host (GoTime 1000)]
   \<and> getBestMove (self (run quiet_env (snd (on_bestmove quiet_env ''b0c2'' ''b9c7'' new_world))
        [Host IsSearching, Host (GoTime 1000)])) = ''b0c2''
   \<and> getPonderMove (self (run quiet_env (snd (on_bestmove quiet_env ''b0c2'' ''b9c7'' new_world))
        [Host IsSearching, Host (GoTime 1000)])) = ''b9c7''"
proof -
  have null: "isNull (onBestMoveCallback (self new_world))"
    by (simp add: new_world_def new_object_def)
  have quiet: "\<not> list_ex is_BestMove [Host IsSearching, Host (GoTime 1000)]"
    by simp
  from on_bestmove_updates_without_callback
         [of quiet_env "''b0c2''" "''b9c7''" new_world "[Host IsSearching, Host (GoTime 1000)]"]
  show ?thesis using null quiet by blast
qed

end
